theory Spec2Isabelle
  imports Complex_Main "HOL-Library.Sublist" "HOL-Library.Signed_Division"
begin

section \<open>JavaScript strings and numbers\<close>

text \<open>
  A JavaScript string is a sequence of UTF-16 code units. The user-facing literals of the
  application are Chinese, so a string is modelled as the list of its code units; every
  character that occurs in the sources is in the Basic Multilingual Plane and is one unit.
\<close>

type_synonym jsstring = "nat list"

text \<open>\<open>Number.prototype.toString\<close> and template interpolation of an integer-valued number.\<close>

fun dec_digits :: "nat \<Rightarrow> jsstring" where
  "dec_digits n = (if n < 10 then [48 + n] else dec_digits (n div 10) @ [48 + n mod 10])"

declare dec_digits.simps [simp del]

definition number_toString :: "int \<Rightarrow> jsstring" where
  "number_toString i = (if i < 0 then 45 # dec_digits (nat (- i)) else dec_digits (nat i))"

text \<open>\<open>String.prototype.padStart(n, c)\<close> for a one-unit filler \<open>c\<close>.\<close>

definition padStart :: "nat \<Rightarrow> nat \<Rightarrow> jsstring \<Rightarrow> jsstring" where
  "padStart n c s = replicate (n - length s) c @ s"

subsection \<open>Double-precision arithmetic\<close>

text \<open>
  A finite JavaScript number is a double, given here as the real number it denotes. The
  result of a division, and the value of a decimal literal, is the exact value rounded to
  the nearest double, ties to the even significand. \<open>binary64\<close> rounds to 53 significant
  bits with an unbounded exponent. Overflow to \<open>Infinity\<close> and the subnormal range are left
  out; they do not change the outcome of a comparison with \<open>0.05\<close>: a quotient that
  overflows is above it either way, and a quotient below the normal range is below it
  either way.
\<close>

definition round_half_even :: "real \<Rightarrow> int" where
  "round_half_even y =
     (let n = \<lfloor>y\<rfloor>; r = y - of_int n
      in if r < 1 / 2 then n else if 1 / 2 < r then n + 1 else if even n then n else n + 1)"

definition binary64 :: "real \<Rightarrow> real" where
  "binary64 x =
     (if x = 0 then 0
      else let u = 2 powr (of_int \<lfloor>log 2 \<bar>x\<bar>\<rfloor> - 52)
           in sgn x * of_int (round_half_even (\<bar>x\<bar> / u)) * u)"

subsection \<open>Time values and the calendar\<close>

text \<open>
  A \<open>Date\<close> holds a time value: milliseconds since 1970-01-01T00:00:00Z. The calendar
  fields of a day number (days since the epoch) in the proleptic Gregorian calendar, which
  is what \<open>YearFromTime\<close>, \<open>MonthFromTime\<close> and \<open>DateFromTime\<close> of the language
  compute: the result is (year, month 1 to 12, day of the month).
\<close>

definition civil_of_doy :: "int \<Rightarrow> int \<Rightarrow> int \<times> int \<times> int" where
  "civil_of_doy y doy =
     (let mp = (5 * doy + 2) div 153;
          d = doy - (153 * mp + 2) div 5 + 1;
          m = (if mp < 10 then mp + 3 else mp - 9)
      in (if m \<le> 2 then y + 1 else y, m, d))"

definition civil_of_doe :: "int \<Rightarrow> int \<Rightarrow> int \<times> int \<times> int" where
  "civil_of_doe era doe =
     (let yoe = (doe - doe div 1460 + doe div 36524 - doe div 146096) div 365
      in civil_of_doy (yoe + era * 400) (doe - (365 * yoe + yoe div 4 - yoe div 100)))"

definition civil_from_days :: "int \<Rightarrow> int \<times> int \<times> int" where
  "civil_from_days z = civil_of_doe ((z + 719468) div 146097) ((z + 719468) mod 146097)"

text \<open>The day number of a calendar date (\<open>MakeDay\<close>).\<close>

definition days_from_civil :: "int \<Rightarrow> int \<Rightarrow> int \<Rightarrow> int" where
  "days_from_civil y m d =
     (let y = (if m \<le> 2 then y - 1 else y);
          era = y div 400;
          yoe = y - era * 400;
          doy = (153 * (if 2 < m then m - 3 else m + 9) + 2) div 5 + d - 1;
          doe = yoe * 365 + yoe div 4 - yoe div 100 + doy
      in era * 146097 + doe - 719468)"

text \<open>
  \<open>new Date("YYYY-MM-DD")\<close>: a date-only string is parsed as midnight UTC of that date.
\<close>

definition Date_parse :: "int \<times> int \<times> int \<Rightarrow> int" where
  "Date_parse ymd = (case ymd of (y, m, d) \<Rightarrow> days_from_civil y m d * 86400000)"

text \<open>
  The getters without \<open>UTC\<close> in their name read the local time \<open>t + tza t\<close>, where
  \<open>tza t\<close> is the offset of the user's time zone from UTC at the instant \<open>t\<close>, in
  milliseconds. \<open>getMonth\<close> counts from 0.
\<close>

definition LocalTime :: "(int \<Rightarrow> int) \<Rightarrow> int \<Rightarrow> int" where
  "LocalTime tza t = t + tza t"

definition getFullYear :: "(int \<Rightarrow> int) \<Rightarrow> int \<Rightarrow> int" where
  "getFullYear tza t = fst (civil_from_days (LocalTime tza t div 86400000))"

definition getMonth :: "(int \<Rightarrow> int) \<Rightarrow> int \<Rightarrow> int" where
  "getMonth tza t = fst (snd (civil_from_days (LocalTime tza t div 86400000))) - 1"




section \<open>Clinical threshold evaluator (src/components/DataEntry.tsx)\<close>

subsection \<open>Fluid-removal check\<close>

text \<open>
  \<open>parseFloat\<close> of a number field yields \<open>NaN\<close> (field empty or not a number) or a finite
  double: \<open>None\<close> is \<open>NaN\<close>, \<open>Some x\<close> the double \<open>x\<close>. The quotient \<open>fr / dw\<close> is the
  exact quotient rounded to a double, and the literal \<open>0.05\<close> is the double nearest to
  one twentieth.

  \<^verbatim>\<open>
  const dw = parseFloat(dryWeight);
  const fr = parseFloat(fluidRemoval);
  if (!isNaN(dw) && !isNaN(fr) && dw > 0) { return (fr / dw) > 0.05; }
  return false;
  \<close>
\<close>

definition showFluidWarning :: "real option \<Rightarrow> real option \<Rightarrow> bool" where
  "showFluidWarning dw fr =
     (case dw of
        None \<Rightarrow> False
      | Some d \<Rightarrow>
          (case fr of
             None \<Rightarrow> False
           | Some f \<Rightarrow> if 0 < d then binary64 (5 / 100) < binary64 (f / d) else False))"

subsection \<open>Blood-pressure check\<close>

datatype bp_type = Danger | Warning

record bp_status =
  status_type :: bp_type
  message :: jsstring
  detail :: jsstring

definition msg_low :: jsstring where
  "msg_low = [34880, 21387, 20559, 20302, 32, 40, 20302, 34880, 21387, 41]"

definition detail_low :: jsstring where
  "detail_low = [36879, 26512, 20013, 25110, 36879, 26512, 21518, 20302, 34880, 21387, 39118,
     38505, 26497, 39640, 65292, 35831, 31435, 21363, 20572, 27490, 33073, 27700, 24182, 21672,
     35810, 21307, 29983, 12290]"

definition msg_high :: jsstring where
  "msg_high = [34880, 21387, 20559, 39640]"

text \<open>The pieces of the two \<open>detail\<close> templates of the hypertension branch.\<close>

definition txt_for :: jsstring where
  "txt_for = [38024, 23545]"

definition txt_years_old_systolic_gt :: jsstring where
  "txt_years_old_systolic_gt = [23681, 24739, 32773, 65292, 25910, 32553, 21387, 62]"

definition txt_systolic_gt :: jsstring where
  "txt_systolic_gt = [25910, 32553, 21387, 62]"

definition txt_or_diastolic_gt :: jsstring where
  "txt_or_diastolic_gt = [25110, 33298, 24352, 21387, 62]"

definition txt_is_high :: jsstring where
  "txt_is_high = [23646, 20110, 20559, 39640, 33539, 22260, 12290]"

definition txt_is_high_advice :: jsstring where
  "txt_is_high_advice = [23646, 20110, 20559, 39640, 33539, 22260, 65292, 35831, 27880, 24847,
     25511, 21046, 30416, 20998, 21644, 27700, 20998, 25668, 20837, 12290]"

text \<open>
  \<open>patientAge && patientAge >= 65\<close>: \<open>undefined\<close>, \<open>NaN\<close> and \<open>0\<close> are falsy. \<open>None\<close> is
  an age that is \<open>undefined\<close> or \<open>NaN\<close>.
\<close>

definition elderly :: "int option \<Rightarrow> bool" where
  "elderly patientAge = (case patientAge of None \<Rightarrow> False | Some a \<Rightarrow> a \<noteq> 0 \<and> 65 \<le> a)"

definition sysLimit :: "int option \<Rightarrow> int" where
  "sysLimit patientAge = (if elderly patientAge then 150 else 140)"

definition diaLimit :: "int option \<Rightarrow> int" where
  "diaLimit patientAge = (if elderly patientAge then 90 else 90)"

definition detail_elderly :: "int \<Rightarrow> int \<Rightarrow> int \<Rightarrow> jsstring" where
  "detail_elderly age sl dl =
     txt_for @ number_toString age @ txt_years_old_systolic_gt @ number_toString sl
     @ txt_or_diastolic_gt @ number_toString dl @ txt_is_high"

definition detail_default :: "int \<Rightarrow> int \<Rightarrow> jsstring" where
  "detail_default sl dl =
     txt_systolic_gt @ number_toString sl @ txt_or_diastolic_gt @ number_toString dl
     @ txt_is_high_advice"

definition detail_high :: "int option \<Rightarrow> jsstring" where
  "detail_high patientAge =
     (case patientAge of
        None \<Rightarrow> detail_default (sysLimit patientAge) (diaLimit patientAge)
      | Some a \<Rightarrow>
          if a \<noteq> 0 \<and> 65 \<le> a
          then detail_elderly a (sysLimit patientAge) (diaLimit patientAge)
          else detail_default (sysLimit patientAge) (diaLimit patientAge))"

text \<open>
  \<open>parseInt\<close> of the two pressure fields yields \<open>NaN\<close> (\<open>None\<close>) or an integer.

  \<^verbatim>\<open>
  if (isNaN(sys) || isNaN(dia)) return null;
  if (sys < 90 || dia < 60) { return { type: 'danger', ... }; }
  let sysLimit = 140; let diaLimit = 90;
  if (patientAge && patientAge >= 65) { sysLimit = 150; diaLimit = 90; }
  if (sys > sysLimit || dia > diaLimit) { return { type: 'warning', ... }; }
  return null;
  \<close>
\<close>

definition bpStatus :: "int option \<Rightarrow> int option \<Rightarrow> int option \<Rightarrow> bp_status option" where
  "bpStatus systolic diastolic patientAge =
     (case systolic of
        None \<Rightarrow> None
      | Some sys \<Rightarrow>
          (case diastolic of
             None \<Rightarrow> None
           | Some dia \<Rightarrow>
               if sys < 90 \<or> dia < 60
               then Some \<lparr>status_type = Danger, message = msg_low, detail = detail_low\<rparr>
               else if sysLimit patientAge < sys \<or> diaLimit patientAge < dia
               then Some \<lparr>status_type = Warning, message = msg_high,
                          detail = detail_high patientAge\<rparr>
               else None))"


section \<open>Dialysis-duration calculator (src/components/DataEntry.tsx, second Profile component)\<close>

record dialysis_stats =
  totalMonths :: int
  stats_text :: jsstring

definition msg_date_after_today :: jsstring where
  "msg_date_after_today = [26085, 26399, 19981, 33021, 26202, 20110, 20170, 22825]"

definition txt_months :: jsstring where
  "txt_months = [32, 20010, 26376]"

definition txt_approx :: jsstring where
  "txt_approx = [32, 40, 32422, 32]"

definition txt_years :: jsstring where
  "txt_years = [32, 24180, 32]"

definition txt_months_close :: jsstring where
  "txt_months_close = [32, 20010, 26376, 41]"

text \<open>
  \<open>startDate\<close> is the value of a date input: empty (\<open>None\<close>, falsy) or a calendar date
  \<open>YYYY-MM-DD\<close>, given as (year, month, day). \<open>start\<close> is the time value of
  \<open>new Date(startDate)\<close>, \<open>now\<close> the time value of \<open>new Date()\<close>, and \<open>tza\<close> the offset
  of the user's time zone. \<open>Math.floor(totalMonths / 12)\<close> is the floor of the real quotient
  and \<open>%\<close> is the truncating remainder \<open>smod\<close>.

  \<^verbatim>\<open>
  if (!startDate) return null;
  const start = new Date(startDate);
  const now = new Date();
  if (start > now) return { totalMonths: 0, text: "..." };
  const yearsDiff = now.getFullYear() - start.getFullYear();
  const monthsDiff = now.getMonth() - start.getMonth();
  let totalMonths = yearsDiff * 12 + monthsDiff;
  if (totalMonths < 0) totalMonths = 0;
  const displayYears = Math.floor(totalMonths / 12);
  const displayMonths = totalMonths % 12;
  let text = `${totalMonths} ...`;
  if (displayYears > 0) { text += ` (... ${displayYears} ... ${displayMonths} ...)`; }
  return { totalMonths, text };
  \<close>
\<close>

definition dialysisStats ::
  "(int \<Rightarrow> int) \<Rightarrow> (int \<times> int \<times> int) option \<Rightarrow> int \<Rightarrow> dialysis_stats option" where
  "dialysisStats tza startDate now =
     (case startDate of
        None \<Rightarrow> None
      | Some ymd \<Rightarrow>
          let start = Date_parse ymd
          in if now < start
             then Some \<lparr>totalMonths = 0, stats_text = msg_date_after_today\<rparr>
             else
               let yearsDiff = getFullYear tza now - getFullYear tza start;
                   monthsDiff = getMonth tza now - getMonth tza start;
                   total = yearsDiff * 12 + monthsDiff;
                   total = (if total < 0 then 0 else total);
                   displayYears = \<lfloor>real_of_int total / 12\<rfloor>;
                   displayMonths = total smod 12;
                   txt = number_toString total @ txt_months;
                   txt = (if 0 < displayYears
                          then txt @ txt_approx @ number_toString displayYears @ txt_years
                               @ number_toString displayMonths @ txt_months_close
                          else txt)
               in Some \<lparr>totalMonths = total, stats_text = txt\<rparr>)"

section \<open>Medications and the reminder scheduler (src/App.tsx, src/components/Medications.tsx)\<close>

record medication =
  med_id :: jsstring
  name :: jsstring
  dosage :: jsstring
  frequency :: jsstring
  reminderTime :: "jsstring option"
  takenToday :: bool
  lastTakenDate :: "jsstring option"

text \<open>The argument of \<open>new Notification(title, options)\<close>.\<close>

record notification =
  title :: jsstring
  body :: jsstring
  icon :: "jsstring option"
  requireInteraction :: "bool option"

text \<open>\<open>NotificationPermission\<close>: \<open>'default'\<close> (not yet requested), \<open>'granted'\<close>, \<open>'denied'\<close>.\<close>

datatype notification_permission = Unrequested | Granted | Denied

text \<open>
  What the code reads of \<open>window\<close>: whether \<open>'Notification' in window\<close> holds, and
  \<open>Notification.permission\<close>.
\<close>

record browser =
  has_Notification :: bool
  permission :: notification_permission

text \<open>What the tick reads of \<open>new Date()\<close>; \<open>isoDate\<close> is \<open>toISOString().split('T')[0]\<close>.\<close>

record clock =
  getHours :: nat
  getMinutes :: nat
  isoDate :: jsstring

datatype effect = NewNotification notification | ConsoleError | Alert jsstring

definition reminder_title :: jsstring where
  "reminder_title = [26381, 33647, 25552, 37266]"

definition reminder_body_prefix :: jsstring where
  "reminder_body_prefix = [26102, 38388, 21040, 20102, 65281, 35831, 26381, 29992, 65306]"

definition reminder_icon :: jsstring where
  "reminder_icon = [47, 118, 105, 116, 101, 46, 115, 118, 103]"

definition permission_title :: jsstring where
  "permission_title = [36879, 26512, 20276, 20387]"

definition permission_body :: jsstring where
  "permission_body = [26381, 33647, 25552, 37266, 24050, 24320, 21551]"

definition msg_unsupported :: jsstring where
  "msg_unsupported = [24744, 30340, 27983, 35272, 22120, 19981, 25903, 25345, 36890, 30693,
     21151, 33021]"

definition currentMinute :: "clock \<Rightarrow> jsstring" where
  "currentMinute now =
     padStart 2 48 (number_toString (int (getHours now))) @ [58]
     @ padStart 2 48 (number_toString (int (getMinutes now)))"


definition isTaken :: "jsstring \<Rightarrow> medication \<Rightarrow> bool" where
  "isTaken todayDate med \<longleftrightarrow> lastTakenDate med = Some todayDate \<and> takenToday med"

definition reminder :: "medication \<Rightarrow> notification" where
  "reminder med =
     \<lparr>title = reminder_title,
      body = reminder_body_prefix @ name med @ [32] @ dosage med,
      icon = Some reminder_icon,
      requireInteraction = Some True\<rparr>"

text \<open>
  The body of \<open>medications.forEach\<close>. The constructor call sits in a \<open>try\<close>; \<open>throws\<close>
  tells for which calls it raises, and the handler logs to the console and the loop goes on.
\<close>

primrec forEach_med :: "(notification \<Rightarrow> bool) \<Rightarrow> jsstring \<Rightarrow> jsstring \<Rightarrow> medication list \<Rightarrow> effect list" where
  "forEach_med throws cur todayDate [] = []"
| "forEach_med throws cur todayDate (med # rest) =
     (if reminderTime med = Some cur
      then (if \<not> isTaken todayDate med
            then NewNotification (reminder med)
                 # (if throws (reminder med) then [ConsoleError] else [])
            else [])
      else [])
     @ forEach_med throws cur todayDate rest"

text \<open>
  One run of the timer callback: the result is the new value of \<open>lastCheckMinute.current\<close>
  and the effects in the order they happen.

  \<^verbatim>\<open>
  if (!('Notification' in window) || Notification.permission !== 'granted') { return; }
  ...
  if (currentMinute === lastCheckMinute.current) return;
  lastCheckMinute.current = currentMinute;
  medications.forEach(med => { ... });
  \<close>
\<close>

definition checkReminders ::
  "browser \<Rightarrow> (notification \<Rightarrow> bool) \<Rightarrow> clock \<Rightarrow> medication list \<Rightarrow> jsstring \<Rightarrow> jsstring \<times> effect list" where
  "checkReminders w throws now medications lastCheckMinute =
     (if \<not> has_Notification w \<or> permission w \<noteq> Granted
      then (lastCheckMinute, [])
      else if currentMinute now = lastCheckMinute
      then (lastCheckMinute, [])
      else (currentMinute now, forEach_med throws (currentMinute now) (isoDate now) medications))"

text \<open>
  \<open>requestPermission\<close> of the medication list. \<open>answer\<close> is the value the promise of
  \<open>Notification.requestPermission()\<close> resolves with, which is the runtime permission from
  then on. The result is the browser afterwards, the component's \<open>notificationPermission\<close>
  state and the effects.
\<close>

definition requestPermission ::
  "browser \<Rightarrow> notification_permission \<Rightarrow> notification_permission
     \<Rightarrow> browser \<times> notification_permission \<times> effect list" where
  "requestPermission w answer notificationPermission =
     (if \<not> has_Notification w
      then (w, notificationPermission, [Alert msg_unsupported])
      else (w\<lparr>permission := answer\<rparr>, answer,
            if answer = Granted
            then [NewNotification \<lparr>title = permission_title, body = permission_body,
                    icon = None, requireInteraction = None\<rparr>]
            else []))"

text \<open>
  \<open>toggleMedTaken\<close>, the function given to \<open>setMedications\<close>:
  \<^verbatim>\<open>
  prev.map(m => {
    if (m.id === id) {
      const isTakenToday = m.lastTakenDate === date && m.takenToday;
      return { ...m, takenToday: !isTakenToday,
               lastTakenDate: !isTakenToday ? date : m.lastTakenDate };
    }
    return m;
  })
  \<close>
\<close>

definition toggleMedTaken :: "jsstring \<Rightarrow> jsstring \<Rightarrow> medication list \<Rightarrow> medication list" where
  "toggleMedTaken i d prev =
     map (\<lambda>m. if med_id m = i
              then let isTakenToday = (lastTakenDate m = Some d \<and> takenToday m)
                   in m\<lparr>takenToday := \<not> isTakenToday,
                        lastTakenDate := (if \<not> isTakenToday then Some d else lastTakenDate m)\<rparr>
              else m) prev"

subsection \<open>The running application as a transition system\<close>

text \<open>
  The part of the application that can reach the notification sink: the browser, the
  scheduler's marker, the medication list, and a log of every \<open>new Notification\<close> call
  together with the runtime permission at the moment of the call. Each callback runs to
  completion, so a step is one timer tick, one permission request, a change of the
  permission made in the browser's settings, or a change of the medication list.
\<close>

record app_state =
  window :: browser
  lastCheckMinute :: jsstring
  medications :: "medication list"
  sink :: "(notification_permission \<times> notification) list"

fun created :: "effect list \<Rightarrow> notification list" where
  "created [] = []"
| "created (NewNotification n # es) = n # created es"
| "created (ConsoleError # es) = created es"
| "created (Alert a # es) = created es"

definition tick :: "(notification \<Rightarrow> bool) \<Rightarrow> clock \<Rightarrow> app_state \<Rightarrow> app_state" where
  "tick throws now s =
     (let r = checkReminders (window s) throws now (medications s) (lastCheckMinute s)
      in s\<lparr>lastCheckMinute := fst r,
           sink := sink s @ map (\<lambda>n. (permission (window s), n)) (created (snd r))\<rparr>)"

definition request :: "notification_permission \<Rightarrow> notification_permission \<Rightarrow> app_state \<Rightarrow> app_state" where
  "request answer shown s =
     (let r = requestPermission (window s) answer shown
      in s\<lparr>window := fst r,
           sink := sink s @ map (\<lambda>n. (permission (fst r), n)) (created (snd (snd r)))\<rparr>)"

inductive reachable :: "app_state \<Rightarrow> bool" where
  start: "reachable \<lparr>window = w, lastCheckMinute = [], medications = ms, sink = []\<rparr>"
| timer: "reachable s \<Longrightarrow> reachable (tick throws now s)"
| ask: "reachable s \<Longrightarrow> reachable (request answer shown s)"
| settings: "reachable s \<Longrightarrow> reachable (s\<lparr>window := (window s)\<lparr>permission := p\<rparr>\<rparr>)"
| edit: "reachable s \<Longrightarrow> reachable (s\<lparr>medications := ms\<rparr>)"

section \<open>AI gateway: summarize (src/types.ts, second part: services/geminiService)\<close>

record HealthRecord =
  rec_id :: jsstring
  date :: jsstring
  weight :: real
  dryWeight :: real
  fluidRemoval :: "real option"
  systolic :: int
  diastolic :: int
  hr_notes :: "jsstring option"

record gen_request =
  model :: jsstring
  contents :: jsstring

text \<open>\<open>response.text\<close> may be \<open>undefined\<close>.\<close>

record gen_response =
  response_text :: "jsstring option"

definition msg_no_key :: jsstring where
  "msg_no_key = [65, 80, 73, 32, 75, 101, 121, 32, 26410, 37197, 32622, 65292, 26080, 27861,
     29983, 25104, 26234, 33021, 20998, 26512, 12290]"

definition msg_no_data :: jsstring where
  "msg_no_data = [23578, 26080, 36275, 22815, 25968, 25454, 36827, 34892, 20998, 26512, 65292,
     35831, 20808, 28155, 21152, 35760, 24405, 12290]"

definition msg_no_text :: jsstring where
  "msg_no_text = [26080, 27861, 29983, 25104, 20998, 26512, 65292, 35831, 31245, 21518, 20877,
     35797, 12290]"

definition msg_error :: jsstring where
  "msg_error = [29983, 25104, 20998, 26512, 26102, 21457, 29983, 38169, 35823, 65292, 35831,
     26816, 26597, 32593, 32476, 36830, 25509, 12290]"

definition model_name :: jsstring where
  "model_name = [103, 101, 109, 105, 110, 105, 45, 50, 46, 53, 45, 102, 108, 97, 115, 104]"

text \<open>
  What \<open>generateHealthAnalysis\<close> does: how its promise settles (\<open>Inl\<close> a rejection,
  \<open>Inr\<close> the string it resolves with), the requests sent to the service, and the errors
  written to the console.
\<close>

record 'e analysis =
  settled :: "'e + jsstring"
  requests :: "gen_request list"
  logged :: "'e list"

text \<open>
  \<open>apiKey\<close> is \<open>process.env.API_KEY || ''\<close>. \<open>prompt\<close> stands for the sort by date and
  the template that build the prompt from the records; neither raises. \<open>generateContent\<close>
  is the service call, which returns a response or raises (\<open>Inl\<close>).

  \<^verbatim>\<open>
  if (!apiKey) { return "..."; }
  if (records.length === 0) { return "..."; }
  ...
  try {
    const response = await ai.models.generateContent({ model: 'gemini-2.5-flash', contents: prompt });
    return response.text || "...";
  } catch (error) { console.error("Gemini API Error:", error); return "..."; }
  \<close>
\<close>

definition generateHealthAnalysis ::
  "jsstring \<Rightarrow> (HealthRecord list \<Rightarrow> jsstring) \<Rightarrow> (gen_request \<Rightarrow> 'e + gen_response)
     \<Rightarrow> HealthRecord list \<Rightarrow> 'e analysis" where
  "generateHealthAnalysis apiKey prompt generateContent records =
     (if apiKey = []
      then \<lparr>settled = Inr msg_no_key, requests = [], logged = []\<rparr>
      else if length records = 0
      then \<lparr>settled = Inr msg_no_data, requests = [], logged = []\<rparr>
      else
        let req = \<lparr>model = model_name, contents = prompt records\<rparr>
        in case generateContent req of
             Inr response \<Rightarrow>
               \<lparr>settled = Inr (case response_text response of
                                 None \<Rightarrow> msg_no_text
                               | Some t \<Rightarrow> if t = [] then msg_no_text else t),
                requests = [req], logged = []\<rparr>
           | Inl error \<Rightarrow>
               \<lparr>settled = Inr msg_error, requests = [req], logged = [error]\<rparr>)"

section \<open>Properties of the threshold evaluator\<close>

lemma number_toString_50: "number_toString 50 = [53, 48]"
  by (simp add: number_toString_def dec_digits.simps)

lemma number_toString_90: "number_toString 90 = [57, 48]"
  by (simp add: number_toString_def dec_digits.simps)

lemma number_toString_140: "number_toString 140 = [49, 52, 48]"
  by (simp add: number_toString_def dec_digits.simps)

lemma sysLimit_cases:
  "sysLimit age = (case age of None \<Rightarrow> 140 | Some a \<Rightarrow> if 65 \<le> a then 150 else 140)"
  by (auto simp: sysLimit_def elderly_def split: option.splits)

lemma diaLimit_const: "diaLimit age = 90"
  by (simp add: diaLimit_def)

lemma sublist_mid: "sublist ys (xs @ ys @ zs)"
  unfolding sublist_def by blast

lemma rhe_lower: "\<lfloor>y\<rfloor> \<le> round_half_even y"
  by (simp add: round_half_even_def Let_def)

lemma rhe_upper: "round_half_even y \<le> \<lfloor>y\<rfloor> + 1"
  by (simp add: round_half_even_def Let_def)

lemma rhe_ge:
  assumes "of_int a \<le> y"
  shows "a \<le> round_half_even y"
proof -
  from assms have "a \<le> \<lfloor>y\<rfloor>" by (simp add: le_floor_iff)
  with rhe_lower [of y] show ?thesis by linarith
qed

lemma rhe_le:
  assumes "y \<le> of_int b"
  shows "round_half_even y \<le> b"
proof (cases "y = of_int b")
  case True
  then show ?thesis by (simp add: round_half_even_def)
next
  case False
  with assms have "y < of_int b" by simp
  then have "\<lfloor>y\<rfloor> < b" by (simp add: floor_less_iff)
  with rhe_upper [of y] show ?thesis by linarith
qed

lemma rhe_gt_even:
  assumes "even N"
  shows "N < round_half_even y \<longleftrightarrow> of_int N + 1 / 2 < y"
proof
  assume gt: "N < round_half_even y"
  show "of_int N + 1 / 2 < y"
  proof (rule ccontr)
    assume "\<not> of_int N + 1 / 2 < y"
    then have le: "y \<le> of_int N + 1 / 2" by simp
    then have "y < of_int (N + 1)" by simp
    then have "\<lfloor>y\<rfloor> < N + 1" by (rule floor_less_iff [THEN iffD2])
    then have fl: "\<lfloor>y\<rfloor> \<le> N" by simp
    show False
    proof (cases "\<lfloor>y\<rfloor> = N")
      case True
      with le have "y - of_int \<lfloor>y\<rfloor> \<le> 1 / 2" by simp
      with True assms have "round_half_even y = N"
        by (auto simp: round_half_even_def Let_def)
      with gt show False by simp
    next
      case False
      with fl have "\<lfloor>y\<rfloor> + 1 \<le> N" by simp
      with rhe_upper [of y] gt show False by linarith
    qed
  qed
next
  assume gt: "of_int N + 1 / 2 < y"
  then have "of_int N \<le> y" by simp
  then have fl: "N \<le> \<lfloor>y\<rfloor>" by (simp add: le_floor_iff)
  show "N < round_half_even y"
  proof (cases "\<lfloor>y\<rfloor> = N")
    case True
    with gt have "1 / 2 < y - of_int \<lfloor>y\<rfloor>" by simp
    with True show ?thesis by (simp add: round_half_even_def Let_def)
  next
    case False
    with fl have "N < \<lfloor>y\<rfloor>" by simp
    with rhe_lower [of y] show ?thesis by linarith
  qed
qed

lemma binary64_pos:
  assumes "0 < x" and "2 powr of_int e \<le> x" and "x < 2 powr (of_int e + 1)"
  shows "binary64 x = of_int (round_half_even (x / 2 powr (of_int e - 52))) * 2 powr (of_int e - 52)"
proof -
  have "\<lfloor>log 2 x\<rfloor> = e"
    using assms by (simp add: floor_log_eq_powr_iff)
  with assms(1) show ?thesis by (simp add: binary64_def Let_def)
qed

lemma exponent_bounds:
  assumes "0 < x"
  shows "2 powr of_int \<lfloor>log 2 x\<rfloor> \<le> x \<and> x < 2 powr (of_int \<lfloor>log 2 x\<rfloor> + 1)"
  using assms floor_log_eq_powr_iff [of x 2 "\<lfloor>log 2 x\<rfloor>"] by simp

lemma binary64_range:
  assumes "0 < x" and "2 powr of_int e \<le> x" and "x < 2 powr (of_int e + 1)"
  shows "2 powr of_int e \<le> binary64 x \<and> binary64 x \<le> 2 powr (of_int e + 1)"
proof -
  let ?u = "2 powr (of_int e - 52) :: real"
  have u: "0 < ?u" by simp
  have lo: "2 powr of_int e = of_int (2 ^ 52) * ?u"
    by (simp add: powr_diff)
  have hi: "2 powr (of_int e + 1) = of_int (2 ^ 53) * ?u"
    by (simp add: powr_diff powr_add)
  have "of_int (2 ^ 52) \<le> x / ?u"
    using assms(2) u unfolding lo by (simp add: field_simps)
  then have a: "2 ^ 52 \<le> round_half_even (x / ?u)" by (rule rhe_ge)
  have "x / ?u \<le> of_int (2 ^ 53)"
    using assms(3) u unfolding hi by (simp add: field_simps)
  then have b: "round_half_even (x / ?u) \<le> 2 ^ 53" by (rule rhe_le)
  have "of_int (2 ^ 52) * ?u \<le> of_int (round_half_even (x / ?u)) * ?u"
    using a u by (intro mult_right_mono) (simp_all add: of_int_le_iff del: of_int_power of_int_numeral)
  moreover have "of_int (round_half_even (x / ?u)) * ?u \<le> of_int (2 ^ 53) * ?u"
    using b u by (intro mult_right_mono) (simp_all add: of_int_le_iff del: of_int_power of_int_numeral)
  ultimately show ?thesis
    unfolding binary64_pos [OF assms] lo hi by simp
qed

lemma binary64_nonpos: "x \<le> 0 \<Longrightarrow> binary64 x \<le> 0"
proof -
  assume "x \<le> 0"
  show ?thesis
  proof (cases "x = 0")
    case True then show ?thesis by (simp add: binary64_def)
  next
    case False
    with \<open>x \<le> 0\<close> have neg: "x < 0" by simp
    let ?u = "2 powr (of_int \<lfloor>log 2 \<bar>x\<bar>\<rfloor> - 52) :: real"
    have "of_int 0 \<le> \<bar>x\<bar> / ?u" by simp
    then have "0 \<le> round_half_even (\<bar>x\<bar> / ?u)" by (rule rhe_ge)
    then have "0 \<le> of_int (round_half_even (\<bar>x\<bar> / ?u)) * ?u" by simp
    with neg False show ?thesis by (simp add: binary64_def Let_def mult.assoc)
  qed
qed


lemma binary64_eval:
  assumes "0 < x" and "2 powr of_int e \<le> x" and "x < 2 powr (of_int e + 1)"
    and "2 powr (of_int e - 52) = u" and "round_half_even (x / u) = n"
  shows "binary64 x = of_int n * u"
  using binary64_pos [OF assms(1-3)] assms(4,5) by simp

lemma binary64_literal: "binary64 (5 / 100) = 7205759403792794 / 2 ^ 57"
proof -
  have p: "(0::real) < 5 / 100" by simp
  have a: "(2::real) powr of_int (- 5) \<le> 5 / 100"
    by (simp add: powr_minus_divide)
  have b: "(5 / 100 :: real) < 2 powr (of_int (- 5) + 1)"
    by (simp add: powr_minus_divide)
  have u: "(2::real) powr (of_int (- 5) - 52) = 1 / 2 ^ 57"
    by (simp add: powr_minus_divide)
  have r: "round_half_even (5 / 100 / (1 / 2 ^ 57)) = 7205759403792794"
    by (simp add: round_half_even_def Let_def)
  show ?thesis
    using binary64_eval [OF p a b u r] by simp
qed

lemma binary64_twentieth: "binary64 (1 / 20) = 7205759403792794 / 2 ^ 57"
  using binary64_literal by simp

lemma binary64_3_1: "binary64 (31 / 10) = 6980579422424269 / 2 ^ 51"
proof -
  have p: "(0::real) < 31 / 10" by simp
  have a: "(2::real) powr of_int 1 \<le> 31 / 10" by simp
  have b: "(31 / 10 :: real) < 2 powr (of_int 1 + 1)" by simp
  have u: "(2::real) powr (of_int 1 - 52) = 1 / 2 ^ 51"
    by (simp add: powr_minus_divide)
  have r: "round_half_even (31 / 10 / (1 / 2 ^ 51)) = 6980579422424269"
    by (simp add: round_half_even_def Let_def)
  show ?thesis
    using binary64_eval [OF p a b u r] by simp
qed

lemma binary64_44_8: "binary64 (448 / 10) = 6305039478318694 / 2 ^ 47"
proof -
  have p: "(0::real) < 448 / 10" by simp
  have a: "(2::real) powr of_int 5 \<le> 448 / 10" by simp
  have b: "(448 / 10 :: real) < 2 powr (of_int 5 + 1)" by simp
  have u: "(2::real) powr (of_int 5 - 52) = 1 / 2 ^ 47"
    by (simp add: powr_minus_divide)
  have r: "round_half_even (448 / 10 / (1 / 2 ^ 47)) = 6305039478318694"
    by (simp add: round_half_even_def Let_def)
  show ?thesis
    using binary64_eval [OF p a b u r] by simp
qed

lemma binary64_2_24: "binary64 (224 / 100) = 5044031582654956 / 2 ^ 51"
proof -
  have p: "(0::real) < 224 / 100" by simp
  have a: "(2::real) powr of_int 1 \<le> 224 / 100" by simp
  have b: "(224 / 100 :: real) < 2 powr (of_int 1 + 1)" by simp
  have u: "(2::real) powr (of_int 1 - 52) = 1 / 2 ^ 51"
    by (simp add: powr_minus_divide)
  have r: "round_half_even (224 / 100 / (1 / 2 ^ 51)) = 5044031582654956"
    by (simp add: round_half_even_def Let_def)
  show ?thesis
    using binary64_eval [OF p a b u r] by simp
qed

lemma binary64_gt_literal:
  "binary64 (5 / 100) < binary64 q \<longleftrightarrow> 7205759403792794 / 2 ^ 57 + 1 / 2 ^ 58 < q"
proof -
  let ?c = "7205759403792794 / 2 ^ 57 :: real"
  show ?thesis
  proof (cases "q \<le> 0")
    case True
    then have "binary64 q \<le> 0" by (rule binary64_nonpos)
    with True show ?thesis by (simp add: binary64_twentieth)
  next
    case False
    then have pos: "0 < q" by simp
    define e where "e = \<lfloor>log 2 q\<rfloor>"
    have eb: "2 powr of_int e \<le> q" "q < 2 powr (of_int e + 1)"
      using exponent_bounds [OF pos] by (simp_all add: e_def)
    have rg: "2 powr of_int e \<le> binary64 q" "binary64 q \<le> 2 powr (of_int e + 1)"
      using binary64_range [OF pos eb] by simp_all
    consider "e \<le> - 6" | "e = - 5" | "- 4 \<le> e" by linarith
    then show ?thesis
    proof cases
      case 1
      then have "(2::real) powr (of_int e + 1) \<le> 2 powr (of_int (- 5))"
        by (intro powr_mono) simp_all
      also have "\<dots> = 1 / 2 ^ 5" by (simp add: powr_minus_divide)
      finally have le: "(2::real) powr (of_int e + 1) \<le> 1 / 2 ^ 5" .
      have "binary64 q \<le> 1 / 2 ^ 5" using rg(2) le by simp
      moreover have "q < 1 / 2 ^ 5" using eb(2) le by simp
      ultimately show ?thesis by (simp add: binary64_twentieth)
    next
      case 3
      have "1 / 2 ^ 4 = (2::real) powr (of_int (- 4))" by (simp add: powr_minus_divide)
      also have "\<dots> \<le> 2 powr of_int e"
        using 3 by (intro powr_mono) simp_all
      finally have ge: "1 / 2 ^ 4 \<le> (2::real) powr of_int e" .
      have "1 / 2 ^ 4 \<le> binary64 q" using rg(1) ge by simp
      moreover have "1 / 2 ^ 4 \<le> q" using eb(1) ge by simp
      ultimately show ?thesis by (simp add: binary64_twentieth)
    next
      case 2
      have u: "(2::real) powr (of_int (- 5) - 52) = 1 / 2 ^ 57"
        by (simp add: powr_minus_divide)
      have v: "binary64 q = of_int (round_half_even (q / (1 / 2 ^ 57))) * (1 / 2 ^ 57)"
        using binary64_pos [OF pos eb] unfolding 2 u .
      have "binary64 (5 / 100) < binary64 q
          \<longleftrightarrow> 7205759403792794 < round_half_even (q / (1 / 2 ^ 57))"
        unfolding v binary64_literal by (simp add: field_simps)
      also have "\<dots> \<longleftrightarrow> of_int 7205759403792794 + 1 / 2 < q / (1 / 2 ^ 57)"
        by (rule rhe_gt_even) simp
      also have "\<dots> \<longleftrightarrow> ?c + 1 / 2 ^ 58 < q"
        by (simp add: field_simps)
      finally show ?thesis .
    qed
  qed
qed

lemma showFluidWarning_iff:
  assumes "0 < d"
  shows "showFluidWarning (Some d) (Some f) \<longleftrightarrow> 7205759403792794 / 2 ^ 57 + 1 / 2 ^ 58 < f / d"
  using assms binary64_gt_literal [of "f / d"] by (simp add: showFluidWarning_def)

text \<open>
  Claim C1, as stated, fails in double arithmetic. For a dry weight of 62 and a fluid
  removal of \<open>parseFloat("3.1")\<close> the ratio of the two parsed values is above one
  twentieth, yet there is no warning; and for the typed values 44.8 and 2.24, whose ratio
  is exactly 5 percent, there is a warning.
\<close>

theorem showFluidWarning_rounding_counterexample:
  "binary64 (31 / 10) = 6980579422424269 / 2 ^ 51
   \<and> 5 / 100 < (6980579422424269 / 2 ^ 51) / (62::real)
   \<and> \<not> showFluidWarning (Some 62) (Some (6980579422424269 / 2 ^ 51))
   \<and> (224 / 100) / (448 / 10) = (5 / 100 :: real)
   \<and> showFluidWarning (Some (binary64 (448 / 10))) (Some (binary64 (224 / 100)))"
proof -
  have a: "(5 / 100 :: real) < (6980579422424269 / 2 ^ 51) / 62" by simp
  have b: "\<not> showFluidWarning (Some 62) (Some (6980579422424269 / 2 ^ 51))"
    using showFluidWarning_iff [of 62 "6980579422424269 / 2 ^ 51"] by simp
  have c: "((224 / 100) / (448 / 10) :: real) = 5 / 100" by simp
  have d: "showFluidWarning (Some (binary64 (448 / 10))) (Some (binary64 (224 / 100)))"
    unfolding binary64_44_8 binary64_2_24
    using showFluidWarning_iff [of "6305039478318694 / 2 ^ 47" "5044031582654956 / 2 ^ 51"]
    by simp
  from binary64_3_1 a b c d show ?thesis by blast
qed

text \<open>
  Claim C1, amended. If either parsed value is \<open>NaN\<close>, or the dry weight is not positive,
  there is no fluid warning. Otherwise the warning is raised exactly when the quotient
  \<open>fr / dw\<close>, rounded to a double, is strictly greater than the double \<open>0.05\<close>, which is
  \<open>7205759403792794 / 2^57\<close>; that is the case exactly when the exact quotient of the two
  parsed values exceeds that double by more than \<open>2^-58\<close>. So a warning implies that the
  exact quotient of the parsed values is above one twentieth, and parsed values whose
  quotient is exactly one twentieth never warn.
\<close>

theorem showFluidWarning_double:
  "(dw = None \<or> fr = None \<or> (\<exists>x. dw = Some x \<and> x \<le> 0) \<longrightarrow> \<not> showFluidWarning dw fr)
   \<and> binary64 (5 / 100) = 7205759403792794 / 2 ^ 57
   \<and> (0 < d \<longrightarrow>
        (showFluidWarning (Some d) (Some f) \<longleftrightarrow> binary64 (5 / 100) < binary64 (f / d))
        \<and> (showFluidWarning (Some d) (Some f)
             \<longleftrightarrow> 7205759403792794 / 2 ^ 57 + 1 / 2 ^ 58 < f / d)
        \<and> (showFluidWarning (Some d) (Some f) \<longrightarrow> 5 / 100 < f / d)
        \<and> (f / d = 5 / 100 \<longrightarrow> \<not> showFluidWarning (Some d) (Some f)))"
proof -
  have guard: "dw = None \<or> fr = None \<or> (\<exists>x. dw = Some x \<and> x \<le> 0)
      \<longrightarrow> \<not> showFluidWarning dw fr"
    by (auto simp: showFluidWarning_def split: option.splits)
  have body: "showFluidWarning (Some d) (Some f) \<longleftrightarrow> binary64 (5 / 100) < binary64 (f / d)"
    if "0 < d"
    using that by (simp add: showFluidWarning_def)
  have thr: "showFluidWarning (Some d) (Some f)
      \<longleftrightarrow> 7205759403792794 / 2 ^ 57 + 1 / 2 ^ 58 < f / d" if "0 < d"
    using that by (rule showFluidWarning_iff)
  have above: "(5 / 100 :: real) < 7205759403792794 / 2 ^ 57 + 1 / 2 ^ 58" by simp
  have warn: "5 / 100 < f / d" if "0 < d" and "showFluidWarning (Some d) (Some f)"
    using thr [OF that(1)] that(2) above by linarith
  have exact: "\<not> showFluidWarning (Some d) (Some f)" if "0 < d" and "f / d = 5 / 100"
    using warn [OF that(1)] that(2) by auto
  from guard binary64_literal body thr warn exact show ?thesis by blast
qed

theorem showFluidWarning_double_witness:
  "(0::real) < 60 \<and> (3::real) / 60 = 5 / 100
   \<and> \<not> showFluidWarning (Some 60) (Some 3)
   \<and> showFluidWarning (Some 60) (Some (7 / 2))
   \<and> \<not> showFluidWarning (Some 0) (Some 3)
   \<and> \<not> showFluidWarning None (Some 3)"
proof -
  have p: "(0::real) < 60" and e: "(3::real) / 60 = 5 / 100" by simp_all
  have q: "(7205759403792794 / 2 ^ 57 + 1 / 2 ^ 58 :: real) < 7 / 2 / 60" by simp
  have z: "\<exists>x. Some (0::real) = Some x \<and> x \<le> 0" by simp
  from showFluidWarning_double [of "Some 0" "Some 3" 60 3] p e z
  have a: "\<not> showFluidWarning (Some 60) (Some 3)"
    and c: "\<not> showFluidWarning (Some 0) (Some 3)" by blast+
  from showFluidWarning_double [of None "Some 3" 60 "7 / 2"] p q
  have b: "showFluidWarning (Some 60) (Some (7 / 2))"
    and d: "\<not> showFluidWarning None (Some 3)" by blast+
  from p e a b c d show ?thesis by blast
qed

text \<open>
  Claim C2. For parseable pressures and any age (known or not), \<open>systolic < 90\<close> or
  \<open>diastolic < 60\<close> gives the hypotension status of type danger with its fixed message
  and advice; the single result is then never a hypertension warning.
\<close>

theorem bpStatus_hypotension_first:
  assumes "sys < 90 \<or> dia < 60"
  shows "bpStatus (Some sys) (Some dia) age
           = Some \<lparr>status_type = Danger, message = msg_low, detail = detail_low\<rparr>
         \<and> map_option status_type (bpStatus (Some sys) (Some dia) age) \<noteq> Some Warning"
  using assms by (simp add: bpStatus_def)

theorem bpStatus_hypotension_first_witness:
  "((85::int) < 90 \<or> (95::int) < 60)
   \<and> bpStatus (Some 85) (Some 95) (Some 70)
       = Some \<lparr>status_type = Danger, message = msg_low, detail = detail_low\<rparr>
   \<and> map_option status_type (bpStatus (Some 85) (Some 95) (Some 70)) \<noteq> Some Warning"
proof -
  have h: "(85::int) < 90 \<or> (95::int) < 60" by simp
  from bpStatus_hypotension_first [OF h, of "Some 70"] h show ?thesis by simp
qed

text \<open>
  Claim C3. The limits are 150/90 for an age of at least 65 and 140/90 otherwise, also
  when the age is absent. When hypotension does not trigger, the result is a status of type
  warning exactly when \<open>systolic > sysLimit\<close> or \<open>diastolic > diaLimit\<close>, and null
  otherwise; an unparseable systolic or diastolic value gives null.
\<close>

theorem bpStatus_hypertension_thresholds:
  "sysLimit age = (case age of None \<Rightarrow> 140 | Some a \<Rightarrow> if 65 \<le> a then 150 else 140)
   \<and> diaLimit age = 90
   \<and> bpStatus None dia_in age = None
   \<and> bpStatus sys_in None age = None
   \<and> (\<not> (sys < 90 \<or> dia < 60) \<longrightarrow>
        (map_option status_type (bpStatus (Some sys) (Some dia) age) = Some Warning
           \<longleftrightarrow> sysLimit age < sys \<or> diaLimit age < dia)
        \<and> (\<not> (sysLimit age < sys \<or> diaLimit age < dia)
             \<longrightarrow> bpStatus (Some sys) (Some dia) age = None))"
proof -
  have "bpStatus None dia_in age = None"
    by (simp add: bpStatus_def)
  moreover have "bpStatus sys_in None age = None"
    by (simp add: bpStatus_def split: option.splits)
  moreover have "\<not> (sys < 90 \<or> dia < 60) \<longrightarrow>
        (map_option status_type (bpStatus (Some sys) (Some dia) age) = Some Warning
           \<longleftrightarrow> sysLimit age < sys \<or> diaLimit age < dia)
        \<and> (\<not> (sysLimit age < sys \<or> diaLimit age < dia)
             \<longrightarrow> bpStatus (Some sys) (Some dia) age = None)"
    by (simp add: bpStatus_def)
  ultimately show ?thesis
    using sysLimit_cases [of age] diaLimit_const [of age] by simp
qed

theorem bpStatus_hypertension_thresholds_witness:
  "\<not> ((148::int) < 90 \<or> (85::int) < 60)
   \<and> sysLimit (Some 70) = 150 \<and> sysLimit (Some 64) = 140 \<and> sysLimit None = 140
   \<and> bpStatus (Some 148) (Some 85) (Some 70) = None
   \<and> map_option status_type (bpStatus (Some 151) (Some 85) (Some 70)) = Some Warning
   \<and> map_option status_type (bpStatus (Some 145) (Some 88) None) = Some Warning"
  using bpStatus_hypertension_thresholds [of "Some 70" None None 148 85]
    bpStatus_hypertension_thresholds [of "Some 70" None None 151 85]
    bpStatus_hypertension_thresholds [of None None None 145 88]
    bpStatus_hypertension_thresholds [of "Some 64" None None 145 88]
  by simp

text \<open>
  Claim C4, as stated, fails: a known age below 65 is not mentioned. For age 50 and a
  reading of 145/80 the warning's detail is the default text for the limits 140/90, in which
  the digits of the age do not occur.
\<close>

theorem bpStatus_age_not_mentioned_counterexample:
  "(0::int) < 50
   \<and> bpStatus (Some 145) (Some 80) (Some 50)
       = Some \<lparr>status_type = Warning, message = msg_high, detail = detail_default 140 90\<rparr>
   \<and> \<not> sublist (number_toString 50) (detail_default 140 90)"
proof -
  have "bpStatus (Some 145) (Some 80) (Some 50)
       = Some \<lparr>status_type = Warning, message = msg_high, detail = detail_default 140 90\<rparr>"
    by (simp add: bpStatus_def sysLimit_def diaLimit_def elderly_def detail_high_def)
  moreover have "\<not> sublist (number_toString 50) (detail_default 140 90)"
    by (simp add: detail_default_def number_toString_50 number_toString_90 number_toString_140
        txt_systolic_gt_def txt_or_diastolic_gt_def txt_is_high_advice_def sublist_Cons_right)
  ultimately show ?thesis by simp
qed

text \<open>
  Claim C4, amended. Whenever the hypertension branch produces a warning, its detail text
  cites the systolic and the diastolic limit that were used, each after its \<open>>\<close> sign.
  The detail mentions the patient's age when the age is at least 65; for an absent age or
  an age below 65 it is the fixed default text for the limits 140/90.
\<close>

theorem bpStatus_warning_detail:
  assumes "bpStatus sys_in dia_in age = Some st" and "status_type st = Warning"
  shows "sublist (txt_systolic_gt @ number_toString (sysLimit age)) (detail st)
         \<and> sublist (txt_or_diastolic_gt @ number_toString (diaLimit age)) (detail st)
         \<and> (\<forall>a. age = Some a \<and> 65 \<le> a \<longrightarrow> sublist (txt_for @ number_toString a) (detail st))
         \<and> (age = None \<or> (\<exists>a. age = Some a \<and> a < 65) \<longrightarrow> detail st = detail_default 140 90)"
proof -
  from assms have d: "detail st = detail_high age"
    by (auto simp: bpStatus_def split: option.splits if_splits)
  have split_txt: "txt_years_old_systolic_gt = [23681, 24739, 32773, 65292] @ txt_systolic_gt"
    by (simp add: txt_years_old_systolic_gt_def txt_systolic_gt_def)
  show ?thesis
  proof (cases "elderly age")
    case True
    then obtain a where a: "age = Some a" "65 \<le> a" "a \<noteq> 0"
      by (auto simp: elderly_def split: option.splits)
    let ?sl = "number_toString (sysLimit age)" and ?dl = "number_toString (diaLimit age)"
    have e: "detail st = txt_for @ number_toString a @ [23681, 24739, 32773, 65292]
        @ txt_systolic_gt @ ?sl @ txt_or_diastolic_gt @ ?dl @ txt_is_high"
      using d a by (simp add: detail_high_def detail_elderly_def split_txt)
    have "sublist (txt_systolic_gt @ ?sl) (detail st)"
      using sublist_mid [of "txt_systolic_gt @ ?sl"
          "txt_for @ number_toString a @ [23681, 24739, 32773, 65292]"
          "txt_or_diastolic_gt @ ?dl @ txt_is_high"]
      by (simp add: e)
    moreover have "sublist (txt_or_diastolic_gt @ ?dl) (detail st)"
      using sublist_mid [of "txt_or_diastolic_gt @ ?dl"
          "txt_for @ number_toString a @ [23681, 24739, 32773, 65292] @ txt_systolic_gt @ ?sl"
          "txt_is_high"]
      by (simp add: e)
    moreover have "sublist (txt_for @ number_toString a) (detail st)"
      using sublist_mid [of "txt_for @ number_toString a" "[]"
          "[23681, 24739, 32773, 65292] @ txt_systolic_gt @ ?sl @ txt_or_diastolic_gt @ ?dl
           @ txt_is_high"]
      by (simp add: e)
    ultimately show ?thesis using a by auto
  next
    case False
    let ?sl = "number_toString (sysLimit age)" and ?dl = "number_toString (diaLimit age)"
    from False have lim: "sysLimit age = 140" "diaLimit age = 90"
      by (simp_all add: sysLimit_def diaLimit_def)
    from False have e: "detail st = txt_systolic_gt @ ?sl @ txt_or_diastolic_gt @ ?dl
        @ txt_is_high_advice"
      using d by (auto simp: detail_high_def detail_default_def elderly_def split: option.splits)
    have "sublist (txt_systolic_gt @ ?sl) (detail st)"
      using sublist_mid [of "txt_systolic_gt @ ?sl" "[]"
          "txt_or_diastolic_gt @ ?dl @ txt_is_high_advice"]
      by (simp add: e)
    moreover have "sublist (txt_or_diastolic_gt @ ?dl) (detail st)"
      using sublist_mid [of "txt_or_diastolic_gt @ ?dl" "txt_systolic_gt @ ?sl"
          "txt_is_high_advice"]
      by (simp add: e)
    moreover have "detail st = detail_default 140 90"
      using e lim by (simp add: detail_default_def)
    moreover have "\<not> (\<exists>a. age = Some a \<and> 65 \<le> a)"
      using False by (auto simp: elderly_def)
    ultimately show ?thesis by auto
  qed
qed

theorem bpStatus_warning_detail_witness:
  "bpStatus (Some 151) (Some 85) (Some 70)
     = Some \<lparr>status_type = Warning, message = msg_high, detail = detail_elderly 70 150 90\<rparr>
   \<and> sublist (txt_systolic_gt @ number_toString 150) (detail_elderly 70 150 90)
   \<and> sublist (txt_or_diastolic_gt @ number_toString 90) (detail_elderly 70 150 90)
   \<and> sublist (txt_for @ number_toString 70) (detail_elderly 70 150 90)"
proof -
  have r: "bpStatus (Some 151) (Some 85) (Some 70)
     = Some \<lparr>status_type = Warning, message = msg_high, detail = detail_elderly 70 150 90\<rparr>"
    by (simp add: bpStatus_def sysLimit_def diaLimit_def elderly_def detail_high_def)
  have l: "sysLimit (Some 70) = 150" "diaLimit (Some 70) = 90"
    by (simp_all add: sysLimit_def diaLimit_def elderly_def)
  from bpStatus_warning_detail [OF r] r l show ?thesis by simp
qed

section \<open>Properties of the duration calculator, the scheduler and the gateway\<close>

lemma floor_twelfth: "\<lfloor>real_of_int m / 12\<rfloor> = m div 12"
  using floor_divide_of_int_eq [of m 12, where ?'a = real] by simp

lemma smod_nonneg: "0 \<le> m \<Longrightarrow> m smod 12 = m mod (12::int)"
  by (simp add: signed_modulo_int_def sgn_if)

lemma created_append: "created (xs @ ys) = created xs @ created ys"
  by (induction xs rule: created.induct) simp_all

lemma created_forEach_med:
  "created (forEach_med throws cur today meds)
     = map reminder (filter (\<lambda>m. reminderTime m = Some cur \<and> \<not> isTaken today m) meds)"
  by (induction meds) (simp_all add: created_append)

lemma minute_0805: "currentMinute \<lparr>getHours = 8, getMinutes = 5, isoDate = d\<rparr> = [48, 56, 58, 48, 53]"
  by (simp add: currentMinute_def padStart_def number_toString_def dec_digits.simps)

lemma created_checkReminders_granted:
  "n \<in> set (created (snd (checkReminders w throws now meds lastMin))) \<Longrightarrow> permission w = Granted"
  by (auto simp: checkReminders_def split: if_splits)

lemma created_requestPermission_granted:
  "n \<in> set (created (snd (snd (requestPermission w answer shown))))
     \<Longrightarrow> permission (fst (requestPermission w answer shown)) = Granted"
  by (auto simp: requestPermission_def split: if_splits)

lemma dec_digits_1: "n < 10 \<Longrightarrow> dec_digits n = [48 + n]"
  by (simp add: dec_digits.simps)









lemma dialysisStats_on_local_fields:
  assumes "m = max 0 ((getFullYear tza now - getFullYear tza (Date_parse ymd)) * 12
                      + (getMonth tza now - getMonth tza (Date_parse ymd)))"
    and "Date_parse ymd \<le> now"
  shows "dialysisStats tza (Some ymd) now
    = Some \<lparr>totalMonths = m,
            stats_text = number_toString m @ txt_months
              @ (if 12 \<le> m
                 then txt_approx @ number_toString (m div 12) @ txt_years
                      @ number_toString (m mod 12) @ txt_months_close
                 else [])\<rparr>"
proof -
  have m0: "0 \<le> m" using assms(1) by simp
  have yrs: "0 < m div 12 \<longleftrightarrow> 12 \<le> m"
    using m0 by (simp add: pos_imp_zdiv_pos_iff)
  have raw: "dialysisStats tza (Some ymd) now
      = Some \<lparr>totalMonths = m,
              stats_text = (if 0 < \<lfloor>real_of_int m / 12\<rfloor>
                            then (number_toString m @ txt_months) @ txt_approx
                                 @ number_toString \<lfloor>real_of_int m / 12\<rfloor> @ txt_years
                                 @ number_toString (m smod 12) @ txt_months_close
                            else number_toString m @ txt_months)\<rparr>"
    using assms(2) unfolding dialysisStats_def Let_def assms(1) max_def by simp
  show ?thesis
    using raw yrs by (simp add: floor_twelfth smod_nonneg [OF m0])
qed

lemma number_toString_digit: "0 \<le> k \<Longrightarrow> k < 10 \<Longrightarrow> number_toString k = [48 + nat k]"
  by (simp add: number_toString_def dec_digits_1)

lemma number_toString_14: "number_toString 14 = [49, 52]"
  by (simp add: number_toString_def dec_digits.simps)

text \<open>
  Claim C5 holds of the entered date only where the local date of midnight UTC is that
  date; the code reads the start date, parsed as midnight UTC, through local-time getters
  and compares it with the present instant. With a zone five hours behind UTC, the start
  date 2024-03-01 and local noon of the same day, the local date of \<open>now\<close> is 2024-03-01
  and the claim's formula gives 0 months, but the result is 1 month. With a zone eight hours
  ahead of UTC, the start date 2024-03-02 and 07:00 local time of the same day, the start
  date is not after the local date of \<open>now\<close>, but the result is the textual error. With no
  offset, start 2023-01-15 and reference 2024-03-01 give 14 months and the breakdown
  1 year 2 months.
\<close>

theorem dialysisStats_utc_midnight_local_fields:
  "civil_from_days (LocalTime (\<lambda>t. - 18000000) 1709312400000 div 86400000) = (2024, 3, 1)
   \<and> dialysisStats (\<lambda>t. - 18000000) (Some (2024, 3, 1)) 1709312400000
       = Some \<lparr>totalMonths = 1, stats_text = [49] @ txt_months\<rparr>
   \<and> civil_from_days (LocalTime (\<lambda>t. 28800000) 1709334000000 div 86400000) = (2024, 3, 2)
   \<and> dialysisStats (\<lambda>t. 28800000) (Some (2024, 3, 2)) 1709334000000
       = Some \<lparr>totalMonths = 0, stats_text = msg_date_after_today\<rparr>
   \<and> dialysisStats (\<lambda>t. 0) (Some (2023, 1, 15)) 1709251200000
       = Some \<lparr>totalMonths = 14,
               stats_text = [49, 52] @ txt_months @ txt_approx @ [49] @ txt_years @ [50]
                 @ txt_months_close\<rparr>"
proof -
  let ?west = "\<lambda>t::int. - 18000000 :: int" and ?east = "\<lambda>t::int. 28800000 :: int"
  let ?utc = "\<lambda>t::int. 0 :: int"
  have p1: "Date_parse (2024, 3, 1) = 1709251200000"
    by (simp add: Date_parse_def days_from_civil_def)
  have p2: "Date_parse (2024, 3, 2) = 1709337600000"
    by (simp add: Date_parse_def days_from_civil_def)
  have p3: "Date_parse (2023, 1, 15) = 1673740800000"
    by (simp add: Date_parse_def days_from_civil_def)
  have now_w: "civil_from_days (LocalTime ?west 1709312400000 div 86400000) = (2024, 3, 1)"
    by (simp add: LocalTime_def civil_from_days_def civil_of_doe_def civil_of_doy_def)
  have start_w: "civil_from_days (LocalTime ?west 1709251200000 div 86400000) = (2024, 2, 29)"
    by (simp add: LocalTime_def civil_from_days_def civil_of_doe_def civil_of_doy_def)
  have now_e: "civil_from_days (LocalTime ?east 1709334000000 div 86400000) = (2024, 3, 2)"
    by (simp add: LocalTime_def civil_from_days_def civil_of_doe_def civil_of_doy_def)
  have now_u: "civil_from_days (LocalTime ?utc 1709251200000 div 86400000) = (2024, 3, 1)"
    by (simp add: LocalTime_def civil_from_days_def civil_of_doe_def civil_of_doy_def)
  have start_u: "civil_from_days (LocalTime ?utc 1673740800000 div 86400000) = (2023, 1, 15)"
    by (simp add: LocalTime_def civil_from_days_def civil_of_doe_def civil_of_doy_def)
  have west: "dialysisStats ?west (Some (2024, 3, 1)) 1709312400000
       = Some \<lparr>totalMonths = 1, stats_text = [49] @ txt_months\<rparr>"
    using dialysisStats_on_local_fields [of 1 ?west 1709312400000 "(2024, 3, 1)"]
    by (simp add: p1 getFullYear_def getMonth_def now_w start_w number_toString_digit)
  have east: "dialysisStats ?east (Some (2024, 3, 2)) 1709334000000
       = Some \<lparr>totalMonths = 0, stats_text = msg_date_after_today\<rparr>"
    by (simp add: dialysisStats_def p2)
  have utc: "dialysisStats ?utc (Some (2023, 1, 15)) 1709251200000
       = Some \<lparr>totalMonths = 14,
               stats_text = [49, 52] @ txt_months @ txt_approx @ [49] @ txt_years @ [50]
                 @ txt_months_close\<rparr>"
    using dialysisStats_on_local_fields [of 14 ?utc 1709251200000 "(2023, 1, 15)"]
    by (simp add: p3 getFullYear_def getMonth_def now_u start_u number_toString_digit
        number_toString_14)
  from now_w west now_e east utc show ?thesis by blast
qed

text \<open>
  Claim C6. If the current minute equals the stored marker, the tick changes nothing and
  has no effect. For every state, a second tick in the same minute (same clock reading,
  same medications) after a first one leaves the marker as the first left it and has no
  effect, so both ticks together create at most one notification per due medication.
\<close>

theorem checkReminders_same_minute:
  "(currentMinute now = lastMin \<longrightarrow> checkReminders w throws now meds lastMin = (lastMin, []))
   \<and> checkReminders w throws2 now meds (fst (checkReminders w throws now meds lastMin))
       = (fst (checkReminders w throws now meds lastMin), [])
   \<and> length (created (snd (checkReminders w throws now meds lastMin))
             @ created (snd (checkReminders w throws2 now meds
                               (fst (checkReminders w throws now meds lastMin)))))
       \<le> length (filter (\<lambda>m. reminderTime m = Some (currentMinute now)
                                \<and> \<not> isTaken (isoDate now) m) meds)"
proof -
  have same: "currentMinute now = lastMin \<longrightarrow> checkReminders w throws now meds lastMin = (lastMin, [])"
    by (simp add: checkReminders_def)
  have again: "checkReminders w throws2 now meds (fst (checkReminders w throws now meds lastMin))
       = (fst (checkReminders w throws now meds lastMin), [])"
    by (simp add: checkReminders_def)
  have first: "length (created (snd (checkReminders w throws now meds lastMin)))
       \<le> length (filter (\<lambda>m. reminderTime m = Some (currentMinute now)
                                \<and> \<not> isTaken (isoDate now) m) meds)"
    by (simp add: checkReminders_def created_forEach_med)
  from same again first show ?thesis by simp
qed

theorem checkReminders_same_minute_witness:
  "currentMinute \<lparr>getHours = 8, getMinutes = 5,
       isoDate = [50, 48, 50, 52, 45, 48, 53, 45, 48, 50]\<rparr> = [48, 56, 58, 48, 53]
   \<and> checkReminders \<lparr>has_Notification = True, permission = Granted\<rparr> (\<lambda>n. False)
        \<lparr>getHours = 8, getMinutes = 5, isoDate = [50, 48, 50, 52, 45, 48, 53, 45, 48, 50]\<rparr>
        [\<lparr>med_id = [49], name = [65], dosage = [49, 103], frequency = [],
          reminderTime = Some [48, 56, 58, 48, 53], takenToday = False, lastTakenDate = None\<rparr>]
        [48, 56, 58, 48, 53]
      = ([48, 56, 58, 48, 53], [])
   \<and> length (created (snd (checkReminders \<lparr>has_Notification = True, permission = Granted\<rparr>
        (\<lambda>n. False)
        \<lparr>getHours = 8, getMinutes = 5, isoDate = [50, 48, 50, 52, 45, 48, 53, 45, 48, 50]\<rparr>
        [\<lparr>med_id = [49], name = [65], dosage = [49, 103], frequency = [],
          reminderTime = Some [48, 56, 58, 48, 53], takenToday = False, lastTakenDate = None\<rparr>]
        []))) = 1
   \<and> checkReminders \<lparr>has_Notification = True, permission = Granted\<rparr> (\<lambda>n. False)
        \<lparr>getHours = 8, getMinutes = 5, isoDate = [50, 48, 50, 52, 45, 48, 53, 45, 48, 50]\<rparr>
        [\<lparr>med_id = [49], name = [65], dosage = [49, 103], frequency = [],
          reminderTime = Some [48, 56, 58, 48, 53], takenToday = False, lastTakenDate = None\<rparr>]
        (fst (checkReminders \<lparr>has_Notification = True, permission = Granted\<rparr> (\<lambda>n. False)
          \<lparr>getHours = 8, getMinutes = 5, isoDate = [50, 48, 50, 52, 45, 48, 53, 45, 48, 50]\<rparr>
          [\<lparr>med_id = [49], name = [65], dosage = [49, 103], frequency = [],
            reminderTime = Some [48, 56, 58, 48, 53], takenToday = False,
            lastTakenDate = None\<rparr>]
          []))
      = ([48, 56, 58, 48, 53], [])"
proof -
  let ?now = "\<lparr>getHours = 8, getMinutes = 5,
    isoDate = [50, 48, 50, 52, 45, 48, 53, 45, 48, 50]\<rparr>"
  let ?w = "\<lparr>has_Notification = True, permission = Granted\<rparr>"
  let ?meds = "[\<lparr>med_id = [49], name = [65], dosage = [49, 103], frequency = [],
          reminderTime = Some [48, 56, 58, 48, 53], takenToday = False, lastTakenDate = None\<rparr>]"
  have first: "checkReminders ?w (\<lambda>n. False) ?now ?meds []
      = ([48, 56, 58, 48, 53], [NewNotification (reminder (hd ?meds))])"
    by (simp add: checkReminders_def minute_0805 isTaken_def)
  from checkReminders_same_minute [of ?now "[48, 56, 58, 48, 53]" ?w "\<lambda>n. False" ?meds
      "\<lambda>n. False"]
    checkReminders_same_minute [of ?now "[]" ?w "\<lambda>n. False" ?meds "\<lambda>n. False"]
  show ?thesis
    by (simp add: minute_0805 first)
qed




text \<open>
  Claim C8. In every reachable state of the application, every notification that was
  created, by a scheduler tick or by the confirmation of a permission request, was created
  while the runtime permission was granted.
\<close>

theorem sink_only_when_granted:
  assumes "reachable s"
  shows "\<forall>e \<in> set (sink s). fst e = Granted"
  using assms
proof (induction rule: reachable.induct)
  case (start w ms)
  show ?case by simp
next
  case (timer s throws now)
  then show ?case
    by (auto simp: tick_def Let_def dest: created_checkReminders_granted)
next
  case (ask s answer shown)
  then show ?case
    by (auto simp: request_def Let_def dest: created_requestPermission_granted)
next
  case (settings s p)
  then show ?case by simp
next
  case (edit s ms)
  then show ?case by simp
qed

theorem sink_only_when_granted_witness:
  "reachable (request Granted Unrequested
      \<lparr>window = \<lparr>has_Notification = True, permission = Unrequested\<rparr>, lastCheckMinute = [],
       medications = [], sink = []\<rparr>)
   \<and> sink (request Granted Unrequested
      \<lparr>window = \<lparr>has_Notification = True, permission = Unrequested\<rparr>, lastCheckMinute = [],
       medications = [], sink = []\<rparr>)
     = [(Granted, \<lparr>title = permission_title, body = permission_body, icon = None,
                   requireInteraction = None\<rparr>)]
   \<and> map fst (sink (request Granted Unrequested
      \<lparr>window = \<lparr>has_Notification = True, permission = Unrequested\<rparr>, lastCheckMinute = [],
       medications = [], sink = []\<rparr>)) = [Granted]"
proof -
  let ?s0 = "\<lparr>window = \<lparr>has_Notification = True, permission = Unrequested\<rparr>,
     lastCheckMinute = [], medications = [], sink = []\<rparr>"
  have r: "reachable (request Granted Unrequested ?s0)"
    by (rule reachable.ask) (rule reachable.start)
  have "sink (request Granted Unrequested ?s0)
     = [(Granted, \<lparr>title = permission_title, body = permission_body, icon = None,
                   requireInteraction = None\<rparr>)]"
    by (simp add: request_def requestPermission_def)
  with sink_only_when_granted [OF r] r show ?thesis by simp
qed

text \<open>
  Claim C9. Toggling keeps the length of the list. A medication with another id is
  unchanged. A medication with the given id that is not taken on the given date gets
  \<open>takenToday = true\<close> and \<open>lastTakenDate = date\<close>; one that is taken on that date gets
  \<open>takenToday = false\<close> and keeps its \<open>lastTakenDate\<close>. All other fields are unchanged.
\<close>

theorem toggleMedTaken_post:
  "length (toggleMedTaken i d prev) = length prev
   \<and> (\<forall>k < length prev.
        (med_id (prev ! k) \<noteq> i \<longrightarrow> toggleMedTaken i d prev ! k = prev ! k)
        \<and> (med_id (prev ! k) = i \<and> \<not> (lastTakenDate (prev ! k) = Some d \<and> takenToday (prev ! k))
             \<longrightarrow> toggleMedTaken i d prev ! k
                   = (prev ! k)\<lparr>takenToday := True, lastTakenDate := Some d\<rparr>)
        \<and> (med_id (prev ! k) = i \<and> lastTakenDate (prev ! k) = Some d \<and> takenToday (prev ! k)
             \<longrightarrow> toggleMedTaken i d prev ! k = (prev ! k)\<lparr>takenToday := False\<rparr>
                 \<and> lastTakenDate (toggleMedTaken i d prev ! k) = lastTakenDate (prev ! k)))"
proof -
  have len: "length (toggleMedTaken i d prev) = length prev"
    by (simp add: toggleMedTaken_def)
  have other: "toggleMedTaken i d prev ! k = prev ! k"
    if "k < length prev" and "med_id (prev ! k) \<noteq> i" for k
    using that by (simp add: toggleMedTaken_def)
  have take: "toggleMedTaken i d prev ! k = (prev ! k)\<lparr>takenToday := True, lastTakenDate := Some d\<rparr>"
    if "k < length prev" and "med_id (prev ! k) = i"
      and "\<not> (lastTakenDate (prev ! k) = Some d \<and> takenToday (prev ! k))" for k
    using that by (simp add: toggleMedTaken_def Let_def)
  have untake: "toggleMedTaken i d prev ! k = (prev ! k)\<lparr>takenToday := False\<rparr>"
    if "k < length prev" and "med_id (prev ! k) = i"
      and "lastTakenDate (prev ! k) = Some d" and "takenToday (prev ! k)" for k
    using that by (simp add: toggleMedTaken_def Let_def)
  show ?thesis
  proof (intro conjI allI impI)
    show "length (toggleMedTaken i d prev) = length prev" by (rule len)
  next
    fix k assume "k < length prev" "med_id (prev ! k) \<noteq> i"
    then show "toggleMedTaken i d prev ! k = prev ! k" by (rule other)
  next
    fix k assume "k < length prev"
      and "med_id (prev ! k) = i \<and> \<not> (lastTakenDate (prev ! k) = Some d \<and> takenToday (prev ! k))"
    then show "toggleMedTaken i d prev ! k
        = (prev ! k)\<lparr>takenToday := True, lastTakenDate := Some d\<rparr>"
      using take by blast
  next
    fix k assume "k < length prev"
      and "med_id (prev ! k) = i \<and> lastTakenDate (prev ! k) = Some d \<and> takenToday (prev ! k)"
    then show "toggleMedTaken i d prev ! k = (prev ! k)\<lparr>takenToday := False\<rparr>"
      using untake by blast
  next
    fix k assume "k < length prev"
      and "med_id (prev ! k) = i \<and> lastTakenDate (prev ! k) = Some d \<and> takenToday (prev ! k)"
    then have "toggleMedTaken i d prev ! k = (prev ! k)\<lparr>takenToday := False\<rparr>"
      using untake by blast
    then show "lastTakenDate (toggleMedTaken i d prev ! k) = lastTakenDate (prev ! k)"
      by simp
  qed
qed

theorem toggleMedTaken_post_witness:
  "(0::nat) < length [\<lparr>med_id = [49], name = [65], dosage = [49, 103], frequency = [],
          reminderTime = Some [48, 56, 58, 48, 53], takenToday = True,
          lastTakenDate = Some [50, 48, 50, 52, 45, 48, 53, 45, 48, 49]\<rparr>] \<and> med_id \<lparr>med_id = [49], name = [65], dosage = [49, 103], frequency = [],
          reminderTime = Some [48, 56, 58, 48, 53], takenToday = True,
          lastTakenDate = Some [50, 48, 50, 52, 45, 48, 53, 45, 48, 49]\<rparr> = [49]
   \<and> \<not> (lastTakenDate \<lparr>med_id = [49], name = [65], dosage = [49, 103], frequency = [],
          reminderTime = Some [48, 56, 58, 48, 53], takenToday = True,
          lastTakenDate = Some [50, 48, 50, 52, 45, 48, 53, 45, 48, 49]\<rparr> = Some [50, 48, 50, 52, 45, 48, 53, 45, 48, 50] \<and> takenToday \<lparr>med_id = [49], name = [65], dosage = [49, 103], frequency = [],
          reminderTime = Some [48, 56, 58, 48, 53], takenToday = True,
          lastTakenDate = Some [50, 48, 50, 52, 45, 48, 53, 45, 48, 49]\<rparr>)
   \<and> toggleMedTaken [49] [50, 48, 50, 52, 45, 48, 53, 45, 48, 50] [\<lparr>med_id = [49], name = [65], dosage = [49, 103], frequency = [],
          reminderTime = Some [48, 56, 58, 48, 53], takenToday = True,
          lastTakenDate = Some [50, 48, 50, 52, 45, 48, 53, 45, 48, 49]\<rparr>]
       = [\<lparr>med_id = [49], name = [65], dosage = [49, 103], frequency = [],
          reminderTime = Some [48, 56, 58, 48, 53], takenToday = True,
          lastTakenDate = Some [50, 48, 50, 52, 45, 48, 53, 45, 48, 49]\<rparr>\<lparr>takenToday := True, lastTakenDate := Some [50, 48, 50, 52, 45, 48, 53, 45, 48, 50]\<rparr>]"
  using toggleMedTaken_post [of "[49]" "[50, 48, 50, 52, 45, 48, 53, 45, 48, 50]" "[\<lparr>med_id = [49], name = [65], dosage = [49, 103], frequency = [],
          reminderTime = Some [48, 56, 58, 48, 53], takenToday = True,
          lastTakenDate = Some [50, 48, 50, 52, 45, 48, 53, 45, 48, 49]\<rparr>]"]
  by (simp add: toggleMedTaken_def)

text \<open>
  Claim C10. The promise of \<open>generateHealthAnalysis\<close> always resolves with a string.
  With no API key it resolves with a fixed string and the service is not contacted; with a
  key and no records it resolves with the fixed no-data string and the service is not
  contacted. Otherwise one request is sent: if the service raises, the result is the fixed
  error string; if it answers, the result is its text, or a fixed string when the text is
  missing or empty.
\<close>

theorem generateHealthAnalysis_total:
  "(\<exists>s. settled (generateHealthAnalysis apiKey prompt svc records) = Inr s)
   \<and> (apiKey = [] \<longrightarrow>
        settled (generateHealthAnalysis apiKey prompt svc records) = Inr msg_no_key
        \<and> requests (generateHealthAnalysis apiKey prompt svc records) = [])
   \<and> (apiKey \<noteq> [] \<and> records = [] \<longrightarrow>
        settled (generateHealthAnalysis apiKey prompt svc records) = Inr msg_no_data
        \<and> requests (generateHealthAnalysis apiKey prompt svc records) = [])
   \<and> (apiKey \<noteq> [] \<and> records \<noteq> [] \<longrightarrow>
        requests (generateHealthAnalysis apiKey prompt svc records)
          = [\<lparr>model = model_name, contents = prompt records\<rparr>]
        \<and> (\<forall>e. svc \<lparr>model = model_name, contents = prompt records\<rparr> = Inl e \<longrightarrow>
              settled (generateHealthAnalysis apiKey prompt svc records) = Inr msg_error)
        \<and> (\<forall>r. svc \<lparr>model = model_name, contents = prompt records\<rparr> = Inr r \<longrightarrow>
              settled (generateHealthAnalysis apiKey prompt svc records)
                = Inr (case response_text r of
                         None \<Rightarrow> msg_no_text
                       | Some t \<Rightarrow> if t = [] then msg_no_text else t)))"
proof -
  let ?g = "generateHealthAnalysis apiKey prompt svc records"
  let ?req = "\<lparr>model = model_name, contents = prompt records\<rparr>"
  have total: "\<exists>s. settled ?g = Inr s"
    by (cases "svc ?req") (simp_all add: generateHealthAnalysis_def Let_def)
  have no_key: "apiKey = [] \<longrightarrow> settled ?g = Inr msg_no_key \<and> requests ?g = []"
    by (simp add: generateHealthAnalysis_def)
  have no_data: "apiKey \<noteq> [] \<and> records = [] \<longrightarrow>
      settled ?g = Inr msg_no_data \<and> requests ?g = []"
    by (simp add: generateHealthAnalysis_def)
  have sent: "apiKey \<noteq> [] \<and> records \<noteq> [] \<longrightarrow> requests ?g = [?req]"
    by (cases "svc ?req") (simp_all add: generateHealthAnalysis_def Let_def)
  have failed: "apiKey \<noteq> [] \<and> records \<noteq> [] \<longrightarrow>
      (\<forall>e. svc ?req = Inl e \<longrightarrow> settled ?g = Inr msg_error)"
    by (simp add: generateHealthAnalysis_def Let_def)
  have answered: "apiKey \<noteq> [] \<and> records \<noteq> [] \<longrightarrow>
      (\<forall>r. svc ?req = Inr r \<longrightarrow>
         settled ?g = Inr (case response_text r of
                             None \<Rightarrow> msg_no_text
                           | Some t \<Rightarrow> if t = [] then msg_no_text else t))"
    by (simp add: generateHealthAnalysis_def Let_def)
  from total no_key no_data sent failed answered show ?thesis by blast
qed

theorem generateHealthAnalysis_total_witness:
  "settled (generateHealthAnalysis [107] (\<lambda>rs. [63]) (\<lambda>q. Inl (503::nat))
      [\<lparr>rec_id = [49], date = [50, 48, 50, 52, 45, 48, 53, 45, 48, 49], weight = 62,
        dryWeight = 60, fluidRemoval = Some 2, systolic = 120, diastolic = 80,
        hr_notes = None\<rparr>]) = Inr msg_error
   \<and> settled (generateHealthAnalysis [107] (\<lambda>rs. [63])
      (\<lambda>q. (Inr \<lparr>response_text = Some []\<rparr> :: nat + gen_response))
      [\<lparr>rec_id = [49], date = [50, 48, 50, 52, 45, 48, 53, 45, 48, 49], weight = 62,
        dryWeight = 60, fluidRemoval = Some 2, systolic = 120, diastolic = 80,
        hr_notes = None\<rparr>]) = Inr msg_no_text
   \<and> settled (generateHealthAnalysis [107] (\<lambda>rs. [63])
      (\<lambda>q. (Inr \<lparr>response_text = Some [79, 75]\<rparr> :: nat + gen_response))
      [\<lparr>rec_id = [49], date = [50, 48, 50, 52, 45, 48, 53, 45, 48, 49], weight = 62,
        dryWeight = 60, fluidRemoval = Some 2, systolic = 120, diastolic = 80,
        hr_notes = None\<rparr>]) = Inr [79, 75]
   \<and> requests (generateHealthAnalysis [] (\<lambda>rs. [63]) (\<lambda>q. Inl (503::nat))
      [\<lparr>rec_id = [49], date = [50, 48, 50, 52, 45, 48, 53, 45, 48, 49], weight = 62,
        dryWeight = 60, fluidRemoval = Some 2, systolic = 120, diastolic = 80,
        hr_notes = None\<rparr>]) = []
   \<and> settled (generateHealthAnalysis [107] (\<lambda>rs. [63]) (\<lambda>q. Inl (503::nat)) [])
       = Inr msg_no_data"
proof -
  let ?r = "\<lparr>rec_id = [49], date = [50, 48, 50, 52, 45, 48, 53, 45, 48, 49], weight = 62,
        dryWeight = 60, fluidRemoval = Some 2, systolic = 120, diastolic = 80,
        hr_notes = None\<rparr>"
  note t = generateHealthAnalysis_total
  from t [of "[107]" "\<lambda>rs. [63]" "\<lambda>q. Inl (503::nat)" "[?r]"]
    t [of "[107]" "\<lambda>rs. [63]" "\<lambda>q. (Inr \<lparr>response_text = Some []\<rparr> :: nat + gen_response)" "[?r]"]
    t [of "[107]" "\<lambda>rs. [63]" "\<lambda>q. (Inr \<lparr>response_text = Some [79, 75]\<rparr> :: nat + gen_response)" "[?r]"]
    t [of "[]" "\<lambda>rs. [63]" "\<lambda>q. Inl (503::nat)" "[?r]"]
    t [of "[107]" "\<lambda>rs. [63]" "\<lambda>q. Inl (503::nat)" "[]"]
  show ?thesis by simp
qed

end
